theory Spec2Isabelle
  imports Complex_Main
begin

section \<open>JavaScript numbers\<close>

text \<open>
  The values that flow through \<^verbatim>\<open>src/components/plot-container.js\<close> as numbers are
  JavaScript numbers. A finite number is idealised as a real (rounding, overflow and the
  sign of zero are left out); the two infinities and NaN are values of their own, because
  the component tests for them: \<^verbatim>\<open>x || 1\<close>, \<^verbatim>\<open>tmpScale > 0 ? tmpScale : 1\<close> and
  \<^verbatim>\<open>Math.log2(scale) || 0\<close> all take their second branch on NaN.
\<close>

datatype jsnum = Fin real | PInf | NInf | NaN

text \<open>ToBoolean on a number: zero and NaN are falsy.\<close>

fun truthy :: "jsnum \<Rightarrow> bool" where
  "truthy (Fin x) = (x \<noteq> 0)"
| "truthy PInf = True"
| "truthy NInf = True"
| "truthy NaN = False"

text \<open>
  \<^verbatim>\<open>a || b\<close> where \<^verbatim>\<open>a\<close> is a property that may be missing (\<open>None\<close> is
  \<^verbatim>\<open>undefined\<close>) and \<^verbatim>\<open>b\<close> is a number.
\<close>

fun js_or :: "jsnum option \<Rightarrow> jsnum \<Rightarrow> jsnum" where
  "js_or None b = b"
| "js_or (Some a) b = (if truthy a then a else b)"

text \<open>\<^verbatim>\<open>a > b\<close> and \<^verbatim>\<open>a >= b\<close>: every comparison with NaN is false.\<close>

fun js_gt :: "jsnum \<Rightarrow> jsnum \<Rightarrow> bool" where
  "js_gt NaN _ = False"
| "js_gt _ NaN = False"
| "js_gt (Fin a) (Fin b) = (a > b)"
| "js_gt PInf PInf = False"
| "js_gt PInf _ = True"
| "js_gt NInf _ = False"
| "js_gt (Fin a) NInf = True"
| "js_gt (Fin a) PInf = False"

fun js_ge :: "jsnum \<Rightarrow> jsnum \<Rightarrow> bool" where
  "js_ge NaN _ = False"
| "js_ge _ NaN = False"
| "js_ge a b = (a = b \<or> js_gt a b)"

text \<open>\<^verbatim>\<open>a + b\<close>, \<^verbatim>\<open>a * b\<close> and \<^verbatim>\<open>a / b\<close> on numbers.\<close>

fun js_add :: "jsnum \<Rightarrow> jsnum \<Rightarrow> jsnum" where
  "js_add NaN _ = NaN"
| "js_add _ NaN = NaN"
| "js_add (Fin a) (Fin b) = Fin (a + b)"
| "js_add PInf NInf = NaN"
| "js_add NInf PInf = NaN"
| "js_add PInf _ = PInf"
| "js_add NInf _ = NInf"
| "js_add (Fin a) b = b"

text \<open>The sign of a number that is not NaN, as \<open>-1\<close>, \<open>0\<close> or \<open>1\<close>.\<close>

fun js_sign :: "jsnum \<Rightarrow> real" where
  "js_sign (Fin x) = sgn x"
| "js_sign PInf = 1"
| "js_sign NInf = -1"
| "js_sign NaN = 0"

definition js_inf :: "real \<Rightarrow> jsnum" where
  "js_inf s = (if s = 0 then NaN else if s > 0 then PInf else NInf)"

fun js_mul :: "jsnum \<Rightarrow> jsnum \<Rightarrow> jsnum" where
  "js_mul NaN _ = NaN"
| "js_mul _ NaN = NaN"
| "js_mul (Fin a) (Fin b) = Fin (a * b)"
| "js_mul a b = js_inf (js_sign a * js_sign b)"

fun js_div :: "jsnum \<Rightarrow> jsnum \<Rightarrow> jsnum" where
  "js_div NaN _ = NaN"
| "js_div _ NaN = NaN"
| "js_div (Fin a) (Fin b) = (if b = 0 then js_inf (sgn a) else Fin (a / b))"
| "js_div (Fin a) _ = Fin 0"
| "js_div a (Fin b) = (if b = 0 then a else js_inf (js_sign a * sgn b))"
| "js_div _ _ = NaN"

text \<open>
  \<^verbatim>\<open>Math.log2\<close>: NaN below zero, \<^verbatim>\<open>-Infinity\<close> at zero, the logarithm above.
\<close>

fun js_log2 :: "jsnum \<Rightarrow> jsnum" where
  "js_log2 (Fin x) = (if x < 0 then NaN else if x = 0 then NInf else Fin (log 2 x))"
| "js_log2 PInf = PInf"
| "js_log2 NInf = NaN"
| "js_log2 NaN = NaN"

section \<open>Export settings and map state\<close>

text \<open>
  \<^verbatim>\<open>exportImageSetting\<close> is \<^verbatim>\<open>{imageSize, legend, ratio, resolution}\<close>, and
  \<^verbatim>\<open>imageSize\<close> is \<^verbatim>\<open>{imageW, imageH, scale}\<close>. A property that is not there reads
  as \<^verbatim>\<open>undefined\<close>, which is \<open>None\<close> here; the destructuring
  \<^verbatim>\<open>{imageSize = {}, ...} = exportImageSetting\<close> replaces a missing \<^verbatim>\<open>imageSize\<close> by
  the empty object.
\<close>

record imageSize_t =
  imageW :: "jsnum option"
  imageH :: "jsnum option"
  scale :: "jsnum option"

record exportImageSetting_t =
  imageSize :: "imageSize_t option"
  legend :: bool
  ratio :: string
  resolution :: string

definition imageSize_of :: "exportImageSetting_t \<Rightarrow> imageSize_t" where
  "imageSize_of exportImageSetting =
     (case imageSize exportImageSetting of
        None \<Rightarrow> \<lparr>imageW = None, imageH = None, scale = None\<rparr>
      | Some s \<Rightarrow> s)"

text \<open>
  \<^verbatim>\<open>mapState\<close> carries \<^verbatim>\<open>width\<close>, \<^verbatim>\<open>height\<close>, \<^verbatim>\<open>zoom\<close> and \<^verbatim>\<open>isSplit\<close>
  among other fields; the other fields are the extension part of the record.
\<close>

record mapState_t =
  width :: jsnum
  height :: jsnum
  zoom :: jsnum
  isSplit :: bool

subsection \<open>The memoised size and scale\<close>

record size_t =
  width :: jsnum
  height :: jsnum

text \<open>
  \<^verbatim>\<open>
  const size = useMemo(() => ({
      width: imageSize.imageW || 1,
      height: imageSize.imageH || 1
    }), [imageSize.imageW, imageSize.imageH]);
  \<close>
\<close>

definition size_memo :: "imageSize_t \<Rightarrow> size_t" where
  "size_memo imageSize =
     \<lparr>size_t.width = js_or (imageW imageSize) (Fin 1),
      size_t.height = js_or (imageH imageSize) (Fin 1)\<rparr>"
  for imageSize

text \<open>
  \<^verbatim>\<open>
  const scale = useMemo(() => {
    if (imageSize.scale) { return imageSize.scale; }
    const tmpScale = getScaleFromImageSize(
      imageSize.imageW, imageSize.imageH,
      mapState.width * (mapState.isSplit ? 2 : 1), mapState.height);
    return tmpScale > 0 ? tmpScale : 1;
  }, [imageSize, mapState]);
  \<close>
  \<^verbatim>\<open>getScaleFromImageSize\<close> is imported from \<^verbatim>\<open>utils/export-utils\<close>; it is a
  parameter here.
\<close>

type_synonym getScale_t = "jsnum option \<Rightarrow> jsnum option \<Rightarrow> jsnum \<Rightarrow> jsnum \<Rightarrow> jsnum"

definition scale_memo ::
  "getScale_t \<Rightarrow> imageSize_t \<Rightarrow> 'a mapState_t_scheme \<Rightarrow> jsnum" where
  "scale_memo getScaleFromImageSize imageSize mapState =
     (let tmpScale = getScaleFromImageSize (imageW imageSize) (imageH imageSize)
            (js_mul (mapState_t.width mapState) (Fin (if isSplit mapState then 2 else 1)))
            (mapState_t.height mapState);
          derived = (if js_gt tmpScale (Fin 0) then tmpScale else Fin 1)
      in case scale imageSize of
           None \<Rightarrow> derived
         | Some s \<Rightarrow> if truthy s then s else derived)"
  for imageSize mapState

section \<open>The props of the map containers\<close>

text \<open>
  \<^verbatim>\<open>mapStyle\<close> carries \<^verbatim>\<open>topMapStyle\<close> and \<^verbatim>\<open>bottomMapStyle\<close> among other
  fields. A style is a value of a type \<open>'sty\<close>;
  \<^verbatim>\<open>scaleMapStyleByResolution\<close>, imported from
  \<^verbatim>\<open>utils/map-style-utils/mapbox-gl-style-editor\<close>, is a parameter of type
  \<open>'sty \<Rightarrow> jsnum \<Rightarrow> 'sty\<close>.
\<close>

record 'sty mapStyle_t =
  topMapStyle :: 'sty
  bottomMapStyle :: 'sty

text \<open>
  A map control is \<^verbatim>\<open>{show, active}\<close>, and \<^verbatim>\<open>mapControls\<close> maps the name of a
  control to it.
\<close>

record control_t =
  show_ctl :: bool
  active :: bool

type_synonym mapControls_t = "string \<rightharpoonup> control_t"

datatype component = StaticMap | OtherComponent string

text \<open>
  \<^verbatim>\<open>
  const deckGlProps = {
    glOptions: {preserveDrawingBuffer: true, useDevicePixels: false}
  };
  \<close>
\<close>

record glOptions_t =
  preserveDrawingBuffer :: bool
  useDevicePixels :: bool

record deckGlProps_t =
  glOptions :: glOptions_t

definition deckGlProps_const :: deckGlProps_t where
  "deckGlProps_const =
     \<lparr>glOptions = \<lparr>preserveDrawingBuffer = True, useDevicePixels = False\<rparr>\<rparr>"

text \<open>
  \<^verbatim>\<open>mapFields\<close> is an object of the caller: it has \<^verbatim>\<open>mapState\<close> and
  \<^verbatim>\<open>mapStyle\<close>, and it may or may not have each of the keys that the component
  writes after spreading it, and each of the four keys that React reserves when it
  creates an element: \<^verbatim>\<open>key\<close>, \<^verbatim>\<open>ref\<close>, \<^verbatim>\<open>__self\<close> and \<^verbatim>\<open>__source\<close>
  (the fields \<open>dev_self\<close> and \<open>dev_source\<close>). \<open>None\<close> is a key that is not there.
  Every key of the object with another name is in the extension part of the record. The
  props of a map container are an object of the same shape, so
  \<^verbatim>\<open>{...mapFields, k: v}\<close> is a record update.
\<close>

record ('ms, 'sty, 'mst, 'h, 'l, 'v) props_t =
  mapState :: "'ms mapState_t_scheme"
  mapStyle :: "('sty, 'mst) mapStyle_t_scheme"
  mapControls :: "mapControls_t option"
  MapComponent :: "component option"
  onMapRender :: "'h option"
  isExport :: "bool option"
  deckGlProps :: "deckGlProps_t option"
  mapLayers :: "'l option"
  index :: "nat option"
  key :: "'v option"
  ref :: "'v option"
  dev_self :: "'v option"
  dev_source :: "'v option"

text \<open>
  \<^verbatim>\<open>const isSplit = useMemo(() => splitMaps && splitMaps.length > 1, [splitMaps]);\<close>
  \<^verbatim>\<open>splitMaps\<close> is an array of objects with a \<^verbatim>\<open>layers\<close> field, or missing.
\<close>

record 'l splitMap_t =
  layers :: 'l

definition isSplit_memo :: "('l, 'x) splitMap_t_scheme list option \<Rightarrow> bool" where
  "isSplit_memo splitMaps =
     (case splitMaps of None \<Rightarrow> False | Some xs \<Rightarrow> length xs > 1)"

text \<open>
  \<^verbatim>\<open>
  const mapProps = useMemo(() => ({
      ...mapFields,
      mapStyle: {
        ...mapStyle,
        bottomMapStyle: scaleMapStyleByResolution(mapStyle.bottomMapStyle, scale),
        topMapStyle: scaleMapStyleByResolution(mapStyle.topMapStyle, scale)
      },
      mapState: {
        ...mapState,
        width: size.width / (isSplit ? 2 : 1),
        height: size.height,
        zoom: mapState.zoom + (Math.log2(scale) || 0)
      },
      mapControls: {mapLegend: {show: legend, active: true}},
      MapComponent: StaticMap,
      onMapRender,
      isExport: true,
      deckGlProps
    }), [..., onMapRender]);
  \<close>
  \<^verbatim>\<open>onMapRender\<close> is a new debounced function at every render of the component, so
  the memoised value is computed anew at every render: the model is the function of the
  values the body reads.
\<close>

definition mapProps ::
  "('sty \<Rightarrow> jsnum \<Rightarrow> 'sty) \<Rightarrow> ('ms, 'sty, 'mst, 'h, 'l, 'v, 'z) props_t_scheme \<Rightarrow> bool \<Rightarrow> jsnum \<Rightarrow>
   size_t \<Rightarrow> bool \<Rightarrow> 'h \<Rightarrow> ('ms, 'sty, 'mst, 'h, 'l, 'v, 'z) props_t_scheme" where
  "mapProps scaleMapStyleByResolution mapFields legend scale size isSplit onMapRender =
     mapFields
       \<lparr>mapStyle := (mapStyle mapFields)
          \<lparr>bottomMapStyle :=
             scaleMapStyleByResolution (bottomMapStyle (mapStyle mapFields)) scale,
           topMapStyle :=
             scaleMapStyleByResolution (topMapStyle (mapStyle mapFields)) scale\<rparr>,
        mapState := (mapState mapFields)
          \<lparr>mapState_t.width := js_div (size_t.width size) (Fin (if isSplit then 2 else 1)),
           mapState_t.height := size_t.height size,
           zoom := js_add (zoom (mapState mapFields)) (js_or (Some (js_log2 scale)) (Fin 0))\<rparr>,
        mapControls := Some [''mapLegend'' \<mapsto> \<lparr>show_ctl = legend, active = True\<rparr>],
        MapComponent := Some StaticMap,
        onMapRender := Some onMapRender,
        isExport := Some True,
        deckGlProps := Some deckGlProps_const\<rparr>"
  for mapFields legend scale size isSplit onMapRender

text \<open>
  A React element of \<^verbatim>\<open>MapContainer\<close>: its key, its ref and its props. The JSX
  \<^verbatim>\<open><MapContainer key={i} index={i} {...mapProps} mapLayers={l} />\<close> is the call of
  \<^verbatim>\<open>React.createElement\<close> on the object
  \<^verbatim>\<open>{key: i, index: i, ...mapProps, mapLayers: l}\<close>. The spread comes after
  \<^verbatim>\<open>key\<close> and \<^verbatim>\<open>index\<close>, so a \<^verbatim>\<open>key\<close> or an \<^verbatim>\<open>index\<close> of
  \<^verbatim>\<open>mapProps\<close> wins over \<^verbatim>\<open>i\<close>. React makes the key of the element from the
  \<^verbatim>\<open>key\<close> of that object and its ref from the \<^verbatim>\<open>ref\<close>, and copies into the props
  every key except the four it reserves.
\<close>

datatype 'v react_key = IndexKey nat | SpreadKey 'v

record ('v, 'p) element_t =
  key :: "'v react_key option"
  ref :: "'v option"
  props :: 'p

definition createElement ::
  "'v react_key option \<Rightarrow> ('ms, 'sty, 'mst, 'h, 'l, 'v, 'z) props_t_scheme \<Rightarrow>
   ('v, ('ms, 'sty, 'mst, 'h, 'l, 'v, 'z) props_t_scheme) element_t" where
  "createElement k config =
     \<lparr>element_t.key =
        (case props_t.key config of None \<Rightarrow> k | Some given \<Rightarrow> Some (SpreadKey given)),
      element_t.ref = props_t.ref config,
      props = config\<lparr>props_t.key := None, props_t.ref := None, dev_self := None,
                     dev_source := None\<rparr>\<rparr>"

definition index_then_spread ::
  "nat \<Rightarrow> ('ms, 'sty, 'mst, 'h, 'l, 'v, 'z) props_t_scheme \<Rightarrow> ('ms, 'sty, 'mst, 'h, 'l, 'v, 'z) props_t_scheme" where
  "index_then_spread i p = p\<lparr>index := (case index p of None \<Rightarrow> Some i | Some j \<Rightarrow> Some j)\<rparr>"

text \<open>
  \<^verbatim>\<open>
  const mapContainers = useMemo(() => {
    return !isSplit ? (
      <MapContainer index={0} {...mapProps} />
    ) : (
      splitMaps.map((settings, index) => (
        <MapContainer key={index} index={index} {...mapProps}
          mapLayers={splitMaps[index].layers} />
      ))
    );
  }, [mapProps, splitMaps, isSplit]);
  \<close>
  The result is the list of the elements. \<^verbatim>\<open>isSplit\<close> holds only when
  \<^verbatim>\<open>splitMaps\<close> is an array, so \<^verbatim>\<open>splitMaps.map\<close> never runs on a missing
  \<^verbatim>\<open>splitMaps\<close>.
\<close>

definition mapContainers ::
  "('l, 'x) splitMap_t_scheme list option \<Rightarrow> ('ms, 'sty, 'mst, 'h, 'l, 'v, 'z) props_t_scheme \<Rightarrow>
   ('v, ('ms, 'sty, 'mst, 'h, 'l, 'v, 'z) props_t_scheme) element_t list" where
  "mapContainers splitMaps mprops =
     (if \<not> isSplit_memo splitMaps then
        [createElement None (index_then_spread 0 mprops)]
      else
        (case splitMaps of
           None \<Rightarrow> []
         | Some xs \<Rightarrow>
             map (\<lambda>i. createElement (Some (IndexKey i))
                       ((index_then_spread i mprops)\<lparr>mapLayers := Some (layers (xs ! i))\<rparr>))
               [0..<length xs]))"

text \<open>
  The body of the component up to the elements it renders into the plotting area:
  \<^verbatim>\<open>imageSize\<close>, \<^verbatim>\<open>legend\<close> from \<^verbatim>\<open>exportImageSetting\<close>,
  \<^verbatim>\<open>mapState\<close> from \<^verbatim>\<open>mapFields\<close>, then the memoised values in the order of the
  source.
\<close>

definition PlotContainer ::
  "getScale_t \<Rightarrow> ('sty \<Rightarrow> jsnum \<Rightarrow> 'sty) \<Rightarrow> exportImageSetting_t \<Rightarrow>
   ('ms, 'sty, 'mst, 'h, 'l, 'v, 'z) props_t_scheme \<Rightarrow> ('l, 'x) splitMap_t_scheme list option \<Rightarrow> 'h \<Rightarrow>
   ('v, ('ms, 'sty, 'mst, 'h, 'l, 'v, 'z) props_t_scheme) element_t list" where
  "PlotContainer getScaleFromImageSize scaleMapStyleByResolution exportImageSetting mapFields
       splitMaps onMapRender =
     (let imageSize = imageSize_of exportImageSetting;
          isSplit = isSplit_memo splitMaps;
          size = size_memo imageSize;
          scale = scale_memo getScaleFromImageSize imageSize (mapState mapFields)
      in mapContainers splitMaps
           (mapProps scaleMapStyleByResolution mapFields (legend exportImageSetting) scale size
              isSplit onMapRender))"
  for exportImageSetting mapFields onMapRender

section \<open>Capturing the plotting area\<close>

text \<open>
  The calls the component makes are recorded as a list of events, in the order in which
  they are made. \<^verbatim>\<open>convertToPng\<close> (from \<^verbatim>\<open>utils/export-utils\<close>) returns a promise:
  the parameter gives how it settles, \<open>Inr\<close> the image data it resolves with, \<open>Inl\<close>
  the error it rejects with. \<^verbatim>\<open>exportImageError\<close> (from
  \<^verbatim>\<open>utils/notifications-utils\<close>) builds the notification from the error.
\<close>

record dom_node =
  className :: string

definition ELEMENT_FILTER_FUNC :: "dom_node \<Rightarrow> bool" where
  "ELEMENT_FILTER_FUNC node = (className node \<noteq> ''mapboxgl-control-container'')"

datatype ('d, 'e, 'n) event =
  SetExportingImage
| ConvertToPng dom_node
| SetExportImageDataUri 'd
| SetExportImageError 'e
| AddNotification 'n

type_synonym ('d, 'e) convertToPng_t = "dom_node \<Rightarrow> (dom_node \<Rightarrow> bool) \<Rightarrow> 'e + 'd"

text \<open>
  The callbacks of the caller that run inside the promise chain. Each is a function of
  its argument that either returns (\<open>None\<close>) or throws an error (\<open>Some\<close>); a
  callback that returns a promise that rejects counts as one that throws.
  \<^verbatim>\<open>setExportingImage\<close> is called before the promise exists and is taken to return.
\<close>

record ('d, 'e, 'n) callbacks_t =
  setExportImageDataUri :: "'d \<Rightarrow> 'e option"
  setExportImageError :: "'e \<Rightarrow> 'e option"
  addNotification :: "'n \<Rightarrow> 'e option"

text \<open>
  A settled promise is \<open>Inl\<close> of the error it is rejected with or \<open>Inr\<close> of its
  value. \<^verbatim>\<open>p.then(f)\<close> runs \<open>f\<close> on the value of a resolved \<open>p\<close> and passes a
  rejection on; \<^verbatim>\<open>p.catch(g)\<close> runs \<open>g\<close> on the error of a rejected \<open>p\<close> and
  passes a value on. A handler gives the events of its calls and the promise it leaves:
  rejected with what it throws, resolved when it returns.
\<close>

definition settled :: "'e option \<Rightarrow> 'e + unit" where
  "settled thrown = (case thrown of None \<Rightarrow> Inr () | Some e \<Rightarrow> Inl e)"

definition promise_then ::
  "'e + 'a \<Rightarrow> ('a \<Rightarrow> 'ev list \<times> ('e + unit)) \<Rightarrow> 'ev list \<times> ('e + unit)" where
  "promise_then p onFulfilled =
     (case p of Inl err \<Rightarrow> ([], Inl err) | Inr v \<Rightarrow> onFulfilled v)"

definition promise_catch ::
  "'e + unit \<Rightarrow> ('e \<Rightarrow> 'ev list \<times> ('e + unit)) \<Rightarrow> 'ev list \<times> ('e + unit)" where
  "promise_catch p onRejected =
     (case p of Inl err \<Rightarrow> onRejected err | Inr v \<Rightarrow> ([], Inr v))"

text \<open>
  \<^verbatim>\<open>
  const retrieveNewScreenShot = useCallback(() => {
    if (plottingAreaRef.current) {
      setExportingImage();
      convertToPng(plottingAreaRef.current, {filter: ELEMENT_FILTER_FUNC})
        .then(setExportImageDataUri)
        .catch(err => {
          setExportImageError(err);
          addNotification(exportImageError({err}));
        });
    }
  }, [setExportingImage, plottingAreaRef.current]);
  \<close>
  The \<^verbatim>\<open>catch\<close> is chained on the promise of the \<^verbatim>\<open>then\<close>, so it also handles
  what \<^verbatim>\<open>setExportImageDataUri\<close> throws. In the handler a throw of
  \<^verbatim>\<open>setExportImageError\<close> leaves the handler before \<^verbatim>\<open>addNotification\<close>. The
  promise of the \<^verbatim>\<open>catch\<close> is dropped.
\<close>

definition on_fulfilled ::
  "('d, 'e, 'n) callbacks_t \<Rightarrow> 'd \<Rightarrow> ('d, 'e, 'n) event list \<times> ('e + unit)" where
  "on_fulfilled cb imageData =
     ([SetExportImageDataUri imageData], settled (setExportImageDataUri cb imageData))"

definition on_rejected ::
  "('d, 'e, 'n) callbacks_t \<Rightarrow> ('e \<Rightarrow> 'n) \<Rightarrow> 'e \<Rightarrow> ('d, 'e, 'n) event list \<times> ('e + unit)" where
  "on_rejected cb exportImageError err =
     (case setExportImageError cb err of
        Some thrown \<Rightarrow> ([SetExportImageError err], Inl thrown)
      | None \<Rightarrow>
          ([SetExportImageError err, AddNotification (exportImageError err)],
           settled (addNotification cb (exportImageError err))))"

definition retrieveNewScreenShot ::
  "('d, 'e, 'n) callbacks_t \<Rightarrow> ('d, 'e) convertToPng_t \<Rightarrow> ('e \<Rightarrow> 'n) \<Rightarrow> dom_node option \<Rightarrow>
   ('d, 'e, 'n) event list" where
  "retrieveNewScreenShot cb convertToPng exportImageError current =
     (case current of
        None \<Rightarrow> []
      | Some node \<Rightarrow>
          (let after_then = promise_then (convertToPng node ELEMENT_FILTER_FUNC) (on_fulfilled cb);
               after_catch = promise_catch (snd after_then) (on_rejected cb exportImageError)
           in SetExportingImage # ConvertToPng node # fst after_then @ fst after_catch))"

text \<open>
  The function that \<^verbatim>\<open>debounce\<close> wraps into \<^verbatim>\<open>onMapRender\<close>:
  \<^verbatim>\<open>
  map => { if (map.isStyledLoaded()) { retrieveNewScreenShot(); } }
  \<close>
  The map instance answers \<^verbatim>\<open>isStyledLoaded()\<close>.
\<close>

record map_instance =
  isStyledLoaded :: bool

definition onMapRender_cb ::
  "('d, 'e, 'n) callbacks_t \<Rightarrow> ('d, 'e) convertToPng_t \<Rightarrow> ('e \<Rightarrow> 'n) \<Rightarrow> dom_node option \<Rightarrow>
   'm map_instance_scheme \<Rightarrow> ('d, 'e, 'n) event list" where
  "onMapRender_cb cb convertToPng exportImageError current mp =
     (if isStyledLoaded mp then retrieveNewScreenShot cb convertToPng exportImageError current
      else [])"

text \<open>The events of each kind in a list of events.\<close>

fun is_capture :: "('d, 'e, 'n) event \<Rightarrow> bool" where
  "is_capture (ConvertToPng _) = True"
| "is_capture _ = False"

fun is_dataUri :: "('d, 'e, 'n) event \<Rightarrow> bool" where
  "is_dataUri (SetExportImageDataUri _) = True"
| "is_dataUri _ = False"

fun is_error :: "('d, 'e, 'n) event \<Rightarrow> bool" where
  "is_error (SetExportImageError _) = True"
| "is_error _ = False"

fun is_notification :: "('d, 'e, 'n) event \<Rightarrow> bool" where
  "is_notification (AddNotification _) = True"
| "is_notification _ = False"

section \<open>The debounced render callback\<close>








section \<open>Mounting and updating the component\<close>

text \<open>
  \<^verbatim>\<open>
  useEffect(() => { setExportingImage(); }, []);
  useEffect(() => { retrieveNewScreenShot(); }, [ratio, resolution, legend]);
  \<close>
  React runs both effects after the first render, in this order, once the ref of the
  rendered \<^verbatim>\<open>StyledMapContainer\<close> is attached to its node. After a later render it
  runs an effect again when one of its dependencies is not the one of the render before.
  What the component keeps between renders is the ref and the dependencies of the second
  effect.
\<close>

record hooks_t =
  plottingAreaRef :: "dom_node option"
  effect_deps :: "string \<times> string \<times> bool"

definition deps_of :: "exportImageSetting_t \<Rightarrow> string \<times> string \<times> bool" where
  "deps_of exportImageSetting =
     (ratio exportImageSetting, resolution exportImageSetting, legend exportImageSetting)"
  for exportImageSetting

definition mount ::
  "('d, 'e, 'n) callbacks_t \<Rightarrow> ('d, 'e) convertToPng_t \<Rightarrow> ('e \<Rightarrow> 'n) \<Rightarrow> dom_node \<Rightarrow>
   exportImageSetting_t \<Rightarrow> hooks_t \<times> ('d, 'e, 'n) event list" where
  "mount cb convertToPng exportImageError node exportImageSetting =
     (let st = \<lparr>plottingAreaRef = Some node, effect_deps = deps_of exportImageSetting\<rparr>
      in (st, SetExportingImage #
                retrieveNewScreenShot cb convertToPng exportImageError (plottingAreaRef st)))"
  for exportImageSetting

definition update ::
  "('d, 'e, 'n) callbacks_t \<Rightarrow> ('d, 'e) convertToPng_t \<Rightarrow> ('e \<Rightarrow> 'n) \<Rightarrow> hooks_t \<Rightarrow>
   exportImageSetting_t \<Rightarrow> hooks_t \<times> ('d, 'e, 'n) event list" where
  "update cb convertToPng exportImageError st exportImageSetting =
     (st\<lparr>effect_deps := deps_of exportImageSetting\<rparr>,
      if deps_of exportImageSetting \<noteq> effect_deps st
      then retrieveNewScreenShot cb convertToPng exportImageError (plottingAreaRef st)
      else [])"
  for exportImageSetting

text \<open>The state after mounting and a sequence of later renders.\<close>

fun updates ::
  "('d, 'e, 'n) callbacks_t \<Rightarrow> ('d, 'e) convertToPng_t \<Rightarrow> ('e \<Rightarrow> 'n) \<Rightarrow> hooks_t \<Rightarrow>
   exportImageSetting_t list \<Rightarrow> hooks_t" where
  "updates cb convertToPng exportImageError st [] = st"
| "updates cb convertToPng exportImageError st (s # ss) =
     updates cb convertToPng exportImageError
       (fst (update cb convertToPng exportImageError st s)) ss"

section \<open>Properties of the size and the scale\<close>

lemma js_ge_one_truthy: "js_ge x (Fin 1) \<Longrightarrow> truthy x"
  by (cases x) auto

text \<open>
  Claim C5. When \<^verbatim>\<open>imageW\<close> and \<^verbatim>\<open>imageH\<close> are both at least 1, the size is
  exactly \<^verbatim>\<open>{width: imageW, height: imageH}\<close>; a component whose setting is missing
  or zero is 1, and so are both when \<^verbatim>\<open>imageSize\<close> itself is missing.
\<close>

theorem size_memo_spec:
  "(imageW s = Some w \<and> imageH s = Some h \<and> js_ge w (Fin 1) \<and> js_ge h (Fin 1)
      \<longrightarrow> size_memo s = \<lparr>size_t.width = w, size_t.height = h\<rparr>)
   \<and> (imageW s = None \<or> imageW s = Some (Fin 0) \<longrightarrow> size_t.width (size_memo s) = Fin 1)
   \<and> (imageH s = None \<or> imageH s = Some (Fin 0) \<longrightarrow> size_t.height (size_memo s) = Fin 1)
   \<and> (imageSize e = None \<longrightarrow>
        size_memo (imageSize_of e) = \<lparr>size_t.width = Fin 1, size_t.height = Fin 1\<rparr>)"
  by (auto simp: size_memo_def imageSize_of_def js_ge_one_truthy)

theorem size_memo_spec_witness:
  "size_memo \<lparr>imageW = Some (Fin 800), imageH = Some (Fin 600), scale = None\<rparr>
     = \<lparr>size_t.width = Fin 800, size_t.height = Fin 600\<rparr>
   \<and> size_t.width (size_memo \<lparr>imageW = None, imageH = Some (Fin 0), scale = None\<rparr>) = Fin 1
   \<and> size_t.height (size_memo \<lparr>imageW = None, imageH = Some (Fin 0), scale = None\<rparr>) = Fin 1
   \<and> size_memo (imageSize_of
         \<lparr>imageSize = None, legend = True, ratio = ''SCREEN'', resolution = ''ONE_X''\<rparr>)
       = \<lparr>size_t.width = Fin 1, size_t.height = Fin 1\<rparr>"
  using
    size_memo_spec [where s = "\<lparr>imageW = Some (Fin 800), imageH = Some (Fin 600), scale = None\<rparr>"
      and w = "Fin 800" and h = "Fin 600"
      and e = "\<lparr>imageSize = None, legend = True, ratio = ''SCREEN'', resolution = ''ONE_X''\<rparr>"]
    size_memo_spec [where s = "\<lparr>imageW = None, imageH = Some (Fin 0), scale = None\<rparr>"
      and w = "Fin 1" and h = "Fin 1"
      and e = "\<lparr>imageSize = None, legend = True, ratio = ''SCREEN'', resolution = ''ONE_X''\<rparr>"]
  by simp

text \<open>
  Claim C1, as stated, fails. An explicit scale of one half is returned as it is, and a
  ratio of one half computed by \<^verbatim>\<open>getScaleFromImageSize\<close> (here the requested width
  400 over the doubled width 800 of a split view) is returned as it is too: the test of
  the source is \<^verbatim>\<open>tmpScale > 0\<close>, not \<^verbatim>\<open>tmpScale >= 1\<close>.
\<close>

theorem scale_below_one_counterexample:
  "\<not> js_ge
       (scale_memo (\<lambda>imgW imgH mapW mapH. Fin 1)
          \<lparr>imageW = Some (Fin 400), imageH = Some (Fin 300), scale = Some (Fin (1/2))\<rparr>
          \<lparr>mapState_t.width = Fin 800, mapState_t.height = Fin 600, zoom = Fin 10,
           isSplit = False\<rparr>)
       (Fin 1)
   \<and> \<not> js_ge
       (scale_memo (\<lambda>imgW imgH mapW mapH. js_div (js_or imgW NaN) mapW)
          \<lparr>imageW = Some (Fin 400), imageH = Some (Fin 300), scale = None\<rparr>
          \<lparr>mapState_t.width = Fin 400, mapState_t.height = Fin 600, zoom = Fin 10,
           isSplit = True\<rparr>)
       (Fin 1)
   \<and> scale_memo (\<lambda>imgW imgH mapW mapH. js_div (js_or imgW NaN) mapW)
         \<lparr>imageW = Some (Fin 400), imageH = Some (Fin 300), scale = None\<rparr>
         \<lparr>mapState_t.width = Fin 400, mapState_t.height = Fin 600, zoom = Fin 10,
          isSplit = True\<rparr>
       \<noteq> Fin 1"
  by (simp add: scale_memo_def)

text \<open>
  Claim C1, amended. A truthy explicit scale (a number other than zero and NaN) is the
  scale. Otherwise the scale is the value of \<^verbatim>\<open>getScaleFromImageSize\<close>, called with the
  width of the map doubled when \<^verbatim>\<open>mapState.isSplit\<close>, when that value is greater than
  zero, and 1 when it is not; so without a truthy explicit scale the scale is greater
  than zero.
\<close>

theorem scale_memo_spec:
  "(scale s = Some x \<and> truthy x \<longrightarrow> scale_memo g s ms = x)
   \<and> (scale s = None \<or> (scale s = Some x \<and> \<not> truthy x) \<longrightarrow>
        (let tmpScale = g (imageW s) (imageH s)
               (js_mul (mapState_t.width ms) (Fin (if isSplit ms then 2 else 1)))
               (mapState_t.height ms)
         in (js_gt tmpScale (Fin 0) \<longrightarrow> scale_memo g s ms = tmpScale)
            \<and> (\<not> js_gt tmpScale (Fin 0) \<longrightarrow> scale_memo g s ms = Fin 1))
        \<and> js_gt (scale_memo g s ms) (Fin 0))"
  by (auto simp: scale_memo_def Let_def split: option.splits)

theorem scale_memo_spec_witness:
  "scale_memo (\<lambda>imgW imgH mapW mapH. js_div (js_or imgW NaN) mapW)
       \<lparr>imageW = Some (Fin 400), imageH = Some (Fin 300), scale = Some (Fin 2)\<rparr>
       \<lparr>mapState_t.width = Fin 400, mapState_t.height = Fin 600, zoom = Fin 10, isSplit = True\<rparr>
     = Fin 2
   \<and> scale_memo (\<lambda>imgW imgH mapW mapH. js_div (js_or imgW NaN) mapW)
       \<lparr>imageW = Some (Fin 400), imageH = Some (Fin 300), scale = Some (Fin 0)\<rparr>
       \<lparr>mapState_t.width = Fin 400, mapState_t.height = Fin 600, zoom = Fin 10, isSplit = True\<rparr>
     = Fin (1/2)
   \<and> scale_memo (\<lambda>imgW imgH mapW mapH. js_div (js_or imgW NaN) mapW)
       \<lparr>imageW = None, imageH = Some (Fin 300), scale = None\<rparr>
       \<lparr>mapState_t.width = Fin 400, mapState_t.height = Fin 600, zoom = Fin 10, isSplit = True\<rparr>
     = Fin 1"
  using
    scale_memo_spec [where g = "\<lambda>imgW imgH mapW mapH. js_div (js_or imgW NaN) mapW"
      and s = "\<lparr>imageW = Some (Fin 400), imageH = Some (Fin 300), scale = Some (Fin 2)\<rparr>"
      and x = "Fin 2"
      and ms = "\<lparr>mapState_t.width = Fin 400, mapState_t.height = Fin 600, zoom = Fin 10,
                 isSplit = True\<rparr>"]
    scale_memo_spec [where g = "\<lambda>imgW imgH mapW mapH. js_div (js_or imgW NaN) mapW"
      and s = "\<lparr>imageW = Some (Fin 400), imageH = Some (Fin 300), scale = Some (Fin 0)\<rparr>"
      and x = "Fin 0"
      and ms = "\<lparr>mapState_t.width = Fin 400, mapState_t.height = Fin 600, zoom = Fin 10,
                 isSplit = True\<rparr>"]
    scale_memo_spec [where g = "\<lambda>imgW imgH mapW mapH. js_div (js_or imgW NaN) mapW"
      and s = "\<lparr>imageW = None, imageH = Some (Fin 300), scale = None\<rparr>"
      and x = "Fin 0"
      and ms = "\<lparr>mapState_t.width = Fin 400, mapState_t.height = Fin 600, zoom = Fin 10,
                 isSplit = True\<rparr>"]
  by (simp add: Let_def)

section \<open>Properties of the map containers\<close>

text \<open>
  Claim C2. A missing \<^verbatim>\<open>splitMaps\<close> and one of length at most 1 give exactly one map
  container; one of length \<open>N > 1\<close> gives exactly \<open>N\<close>, and the \<open>i\<close>-th has
  \<^verbatim>\<open>splitMaps[i].layers\<close> as its \<^verbatim>\<open>mapLayers\<close>.
\<close>

theorem mapContainers_count:
  "length (mapContainers None p) = 1
   \<and> (length xs \<le> 1 \<longrightarrow> length (mapContainers (Some xs) p) = 1)
   \<and> (1 < length xs \<longrightarrow>
        length (mapContainers (Some xs) p) = length xs
        \<and> (\<forall>i < length xs.
              mapLayers (props (mapContainers (Some xs) p ! i)) = Some (layers (xs ! i))))"
  by (auto simp: mapContainers_def isSplit_memo_def createElement_def)

theorem mapContainers_count_witness:
  "length (mapContainers (Some [\<lparr>layers = ''a''\<rparr>])
      \<lparr>mapState = \<lparr>mapState_t.width = Fin 800, mapState_t.height = Fin 600, zoom = Fin 10,
                   isSplit = False\<rparr>,
       mapStyle = \<lparr>topMapStyle = Fin 3, bottomMapStyle = Fin 5\<rparr>,
       mapControls = None, MapComponent = None, onMapRender = Some (0::nat), isExport = None,
       deckGlProps = None, mapLayers = None, index = None,
       key = (None :: string option), ref = None, dev_self = None, dev_source = None\<rparr>) = 1
   \<and> length (mapContainers (Some [\<lparr>layers = ''a''\<rparr>, \<lparr>layers = ''b''\<rparr>])
      \<lparr>mapState = \<lparr>mapState_t.width = Fin 800, mapState_t.height = Fin 600, zoom = Fin 10,
                   isSplit = True\<rparr>,
       mapStyle = \<lparr>topMapStyle = Fin 3, bottomMapStyle = Fin 5\<rparr>,
       mapControls = None, MapComponent = None, onMapRender = Some (0::nat), isExport = None,
       deckGlProps = None, mapLayers = None, index = None,
       key = (None :: string option), ref = None, dev_self = None, dev_source = None\<rparr>) = 2
   \<and> mapLayers (props (mapContainers (Some [\<lparr>layers = ''a''\<rparr>, \<lparr>layers = ''b''\<rparr>])
      \<lparr>mapState = \<lparr>mapState_t.width = Fin 800, mapState_t.height = Fin 600, zoom = Fin 10,
                   isSplit = True\<rparr>,
       mapStyle = \<lparr>topMapStyle = Fin 3, bottomMapStyle = Fin 5\<rparr>,
       mapControls = None, MapComponent = None, onMapRender = Some (0::nat), isExport = None,
       deckGlProps = None, mapLayers = None, index = None,
       key = (None :: string option), ref = None, dev_self = None, dev_source = None\<rparr> ! 1)) = Some ''b''"
proof -
  let ?one = "\<lparr>mapState = \<lparr>mapState_t.width = Fin 800, mapState_t.height = Fin 600,
                   zoom = Fin 10, isSplit = False\<rparr>,
       mapStyle = \<lparr>topMapStyle = Fin 3, bottomMapStyle = Fin 5\<rparr>,
       mapControls = None, MapComponent = None, onMapRender = Some (0::nat), isExport = None,
       deckGlProps = None, mapLayers = None :: string option, index = None,
       key = (None :: string option), ref = None, dev_self = None, dev_source = None\<rparr>"
  let ?two = "\<lparr>mapState = \<lparr>mapState_t.width = Fin 800, mapState_t.height = Fin 600,
                   zoom = Fin 10, isSplit = True\<rparr>,
       mapStyle = \<lparr>topMapStyle = Fin 3, bottomMapStyle = Fin 5\<rparr>,
       mapControls = None, MapComponent = None, onMapRender = Some (0::nat), isExport = None,
       deckGlProps = None, mapLayers = None :: string option, index = None,
       key = (None :: string option), ref = None, dev_self = None, dev_source = None\<rparr>"
  have a: "length [\<lparr>layers = ''a''\<rparr>] \<le> 1"
    by simp
  have b: "1 < length [\<lparr>layers = ''a''\<rparr>, \<lparr>layers = ''b''\<rparr>]"
    by simp
  have c: "(1::nat) < length [\<lparr>layers = ''a''\<rparr>, \<lparr>layers = ''b''\<rparr>]"
    by simp
  from mapContainers_count [where xs = "[\<lparr>layers = ''a''\<rparr>]" and p = ?one] a
  have one: "length (mapContainers (Some [\<lparr>layers = ''a''\<rparr>]) ?one) = 1"
    by blast
  from mapContainers_count [where xs = "[\<lparr>layers = ''a''\<rparr>, \<lparr>layers = ''b''\<rparr>]" and p = ?two] b
  have two: "length (mapContainers (Some [\<lparr>layers = ''a''\<rparr>, \<lparr>layers = ''b''\<rparr>]) ?two)
        = length [\<lparr>layers = ''a''\<rparr>, \<lparr>layers = ''b''\<rparr>]"
    and lay: "\<forall>i < length [\<lparr>layers = ''a''\<rparr>, \<lparr>layers = ''b''\<rparr>].
        mapLayers (props (mapContainers (Some [\<lparr>layers = ''a''\<rparr>, \<lparr>layers = ''b''\<rparr>]) ?two ! i))
          = Some (layers ([\<lparr>layers = ''a''\<rparr>, \<lparr>layers = ''b''\<rparr>] ! i))"
    by blast+
  from lay c
  have "mapLayers (props (mapContainers (Some [\<lparr>layers = ''a''\<rparr>, \<lparr>layers = ''b''\<rparr>]) ?two ! 1))
      = Some (layers ([\<lparr>layers = ''a''\<rparr>, \<lparr>layers = ''b''\<rparr>] ! 1))"
    by blast
  with one two show ?thesis
    by simp
qed

section \<open>Properties of a capture\<close>

text \<open>
  Claim C3, as stated, fails. A capture that succeeds and whose
  \<^verbatim>\<open>setExportImageDataUri\<close> throws reaches the \<^verbatim>\<open>catch\<close>:
  \<^verbatim>\<open>setExportImageError\<close> and \<^verbatim>\<open>addNotification\<close> are both called. A capture
  that fails and whose \<^verbatim>\<open>setExportImageError\<close> throws never calls
  \<^verbatim>\<open>addNotification\<close>. And when every callback returns, what \<^verbatim>\<open>addNotification\<close>
  is called with is the notification that \<^verbatim>\<open>exportImageError\<close> builds, not the
  error.
\<close>

theorem capture_outcome_counterexample:
  "retrieveNewScreenShot
       \<lparr>setExportImageDataUri = (\<lambda>d. Some ''reducer failed''),
        setExportImageError = (\<lambda>e. None), addNotification = (\<lambda>n. None)\<rparr>
       (\<lambda>node flt. Inr ''data:image/png'') (\<lambda>err. ''Export failed: '' @ err)
       (Some \<lparr>className = ''plot''\<rparr>)
     = [SetExportingImage, ConvertToPng \<lparr>className = ''plot''\<rparr>,
        SetExportImageDataUri ''data:image/png'',
        SetExportImageError ''reducer failed'',
        AddNotification ''Export failed: reducer failed'']
   \<and> filter is_notification
        (retrieveNewScreenShot
           \<lparr>setExportImageDataUri = (\<lambda>d. None),
            setExportImageError = (\<lambda>e. Some ''store closed''),
            addNotification = (\<lambda>n. None)\<rparr>
           (\<lambda>node flt. Inl ''tainted canvas'' :: string + string)
           (\<lambda>err. ''Export failed: '' @ err) (Some \<lparr>className = ''plot''\<rparr>))
     = []
   \<and> filter is_notification
        (retrieveNewScreenShot
           \<lparr>setExportImageDataUri = (\<lambda>d. None),
            setExportImageError = (\<lambda>e. None :: string option),
            addNotification = (\<lambda>n. None)\<rparr>
           (\<lambda>node flt. Inl ''tainted canvas'' :: string + string)
           (\<lambda>err. ''Export failed: '' @ err) (Some \<lparr>className = ''plot''\<rparr>))
     \<noteq> [AddNotification ''tainted canvas'']"
  by (simp add: retrieveNewScreenShot_def promise_then_def promise_catch_def on_fulfilled_def
      on_rejected_def settled_def)

text \<open>
  Claim C3, amended. A capture is a call of \<^verbatim>\<open>retrieveNewScreenShot\<close> with the ref
  attached; it calls \<^verbatim>\<open>convertToPng\<close> exactly once. When \<^verbatim>\<open>convertToPng\<close>
  rejects with an error, \<^verbatim>\<open>setExportImageError\<close> is called exactly once with that
  error and \<^verbatim>\<open>setExportImageDataUri\<close> not at all; when that call returns,
  \<^verbatim>\<open>addNotification\<close> is called exactly once, with the notification that
  \<^verbatim>\<open>exportImageError\<close> builds from the same error. When \<^verbatim>\<open>convertToPng\<close>
  resolves with image data, \<^verbatim>\<open>setExportImageDataUri\<close> is called exactly once with
  that data; when that call returns, neither \<^verbatim>\<open>setExportImageError\<close> nor
  \<^verbatim>\<open>addNotification\<close> is called, and when it throws, \<^verbatim>\<open>setExportImageError\<close> is
  called exactly once with what it threw.
\<close>

theorem capture_outcome:
  "(convertToPng node ELEMENT_FILTER_FUNC = Inl err \<longrightarrow>
      filter is_error (retrieveNewScreenShot cb convertToPng exportImageError (Some node))
        = [SetExportImageError err]
      \<and> filter is_dataUri (retrieveNewScreenShot cb convertToPng exportImageError (Some node))
        = []
      \<and> (setExportImageError cb err = None \<longrightarrow>
           filter is_notification
             (retrieveNewScreenShot cb convertToPng exportImageError (Some node))
           = [AddNotification (exportImageError err)]))
   \<and> (convertToPng node ELEMENT_FILTER_FUNC = Inr imageData \<longrightarrow>
      filter is_dataUri (retrieveNewScreenShot cb convertToPng exportImageError (Some node))
        = [SetExportImageDataUri imageData]
      \<and> (setExportImageDataUri cb imageData = None \<longrightarrow>
           filter is_error (retrieveNewScreenShot cb convertToPng exportImageError (Some node))
             = []
           \<and> filter is_notification
               (retrieveNewScreenShot cb convertToPng exportImageError (Some node))
             = [])
      \<and> (setExportImageDataUri cb imageData = Some thrown \<longrightarrow>
           filter is_error (retrieveNewScreenShot cb convertToPng exportImageError (Some node))
             = [SetExportImageError thrown]))
   \<and> filter is_capture (retrieveNewScreenShot cb convertToPng exportImageError (Some node))
        = [ConvertToPng node]"
  by (auto simp: retrieveNewScreenShot_def promise_then_def promise_catch_def on_fulfilled_def
      on_rejected_def settled_def split: sum.splits option.splits)

theorem capture_outcome_witness:
  "retrieveNewScreenShot
       \<lparr>setExportImageDataUri = (\<lambda>d. None), setExportImageError = (\<lambda>e. None),
        addNotification = (\<lambda>n. None)\<rparr>
       (\<lambda>node flt. Inl ''tainted canvas'') (\<lambda>err. ''Export failed: '' @ err)
       (Some \<lparr>className = ''plot''\<rparr>)
     = [SetExportingImage, ConvertToPng \<lparr>className = ''plot''\<rparr>,
        SetExportImageError ''tainted canvas'',
        AddNotification ''Export failed: tainted canvas'']
   \<and> filter is_error
        (retrieveNewScreenShot
           \<lparr>setExportImageDataUri = (\<lambda>d. None), setExportImageError = (\<lambda>e. None),
            addNotification = (\<lambda>n. None)\<rparr>
           (\<lambda>node flt. Inl ''tainted canvas'' :: string + string)
           (\<lambda>err. ''Export failed: '' @ err) (Some \<lparr>className = ''plot''\<rparr>))
     = [SetExportImageError ''tainted canvas'']
   \<and> filter is_dataUri
        (retrieveNewScreenShot
           \<lparr>setExportImageDataUri = (\<lambda>d. None :: string option),
            setExportImageError = (\<lambda>e. None), addNotification = (\<lambda>n. None)\<rparr>
           (\<lambda>node flt. Inr ''data:image/png'' :: string + string)
           (\<lambda>err. ''Export failed: '' @ err) (Some \<lparr>className = ''plot''\<rparr>))
     = [SetExportImageDataUri ''data:image/png'']
   \<and> filter is_error
        (retrieveNewScreenShot
           \<lparr>setExportImageDataUri = (\<lambda>d. None :: string option),
            setExportImageError = (\<lambda>e. None), addNotification = (\<lambda>n. None)\<rparr>
           (\<lambda>node flt. Inr ''data:image/png'' :: string + string)
           (\<lambda>err. ''Export failed: '' @ err) (Some \<lparr>className = ''plot''\<rparr>))
     = []
   \<and> filter is_error
        (retrieveNewScreenShot
           \<lparr>setExportImageDataUri = (\<lambda>d. Some ''reducer failed''),
            setExportImageError = (\<lambda>e. None), addNotification = (\<lambda>n. None)\<rparr>
           (\<lambda>node flt. Inr ''data:image/png'' :: string + string)
           (\<lambda>err. ''Export failed: '' @ err) (Some \<lparr>className = ''plot''\<rparr>))
     = [SetExportImageError ''reducer failed'']"
  using
    capture_outcome [where convertToPng = "\<lambda>node flt. Inl ''tainted canvas'' :: string + string"
      and cb = "\<lparr>setExportImageDataUri = (\<lambda>d. None), setExportImageError = (\<lambda>e. None),
                 addNotification = (\<lambda>n. None)\<rparr>"
      and exportImageError = "\<lambda>err. ''Export failed: '' @ err"
      and node = "\<lparr>className = ''plot''\<rparr>" and err = "''tainted canvas''"
      and imageData = "''data:image/png''" and thrown = "''reducer failed''"]
    capture_outcome [where convertToPng = "\<lambda>node flt. Inr ''data:image/png'' :: string + string"
      and cb = "\<lparr>setExportImageDataUri = (\<lambda>d. None :: string option),
                 setExportImageError = (\<lambda>e. None), addNotification = (\<lambda>n. None)\<rparr>"
      and exportImageError = "\<lambda>err. ''Export failed: '' @ err"
      and node = "\<lparr>className = ''plot''\<rparr>" and err = "''tainted canvas''"
      and imageData = "''data:image/png''" and thrown = "''reducer failed''"]
    capture_outcome [where convertToPng = "\<lambda>node flt. Inr ''data:image/png'' :: string + string"
      and cb = "\<lparr>setExportImageDataUri = (\<lambda>d. Some ''reducer failed''),
                 setExportImageError = (\<lambda>e. None), addNotification = (\<lambda>n. None)\<rparr>"
      and exportImageError = "\<lambda>err. ''Export failed: '' @ err"
      and node = "\<lparr>className = ''plot''\<rparr>" and err = "''tainted canvas''"
      and imageData = "''data:image/png''" and thrown = "''reducer failed''"]
  by (simp add: retrieveNewScreenShot_def promise_then_def promise_catch_def on_fulfilled_def
      on_rejected_def settled_def)

text \<open>
  Claim C9. When the plotting area ref is not attached, \<^verbatim>\<open>retrieveNewScreenShot\<close> does
  nothing: no call of \<^verbatim>\<open>setExportingImage\<close>, of \<^verbatim>\<open>convertToPng\<close> or of a callback.
  So does the render callback, whatever the map reports.
\<close>

theorem detached_ref_no_action:
  "retrieveNewScreenShot cb convertToPng exportImageError None = []
   \<and> onMapRender_cb cb convertToPng exportImageError None mp = []"
  by (simp add: retrieveNewScreenShot_def onMapRender_cb_def)

lemma retrieveNewScreenShot_captures:
  "filter is_capture (retrieveNewScreenShot cb convertToPng exportImageError current) =
     (case current of None \<Rightarrow> [] | Some node \<Rightarrow> [ConvertToPng node])"
  by (auto simp: retrieveNewScreenShot_def promise_then_def promise_catch_def on_fulfilled_def
      on_rejected_def settled_def split: sum.splits option.splits)

text \<open>
  Claim C6. \<^verbatim>\<open>debounce\<close> delays the call of the render callback and hands it the map
  of a signal; the callback starts a capture only when that map reports its styles
  loaded. A map that reports them not loaded gives no call at all, and with the ref
  attached a map that reports them loaded gives exactly one capture.
\<close>

theorem onMapRender_gate:
  "(\<not> isStyledLoaded mp \<longrightarrow> onMapRender_cb cb convertToPng exportImageError current mp = [])
   \<and> (filter is_capture (onMapRender_cb cb convertToPng exportImageError current mp) \<noteq> []
        \<longrightarrow> isStyledLoaded mp)
   \<and> (isStyledLoaded mp \<and> current = Some node \<longrightarrow>
        filter is_capture (onMapRender_cb cb convertToPng exportImageError current mp)
          = [ConvertToPng node])"
  by (simp add: onMapRender_cb_def retrieveNewScreenShot_captures)

theorem onMapRender_gate_witness:
  "onMapRender_cb
       \<lparr>setExportImageDataUri = (\<lambda>d. None :: string option), setExportImageError = (\<lambda>e. None),
        addNotification = (\<lambda>n. None)\<rparr>
       (\<lambda>node flt. Inr ''data:image/png'' :: string + string)
       (\<lambda>err. ''Export failed: '' @ err) (Some \<lparr>className = ''plot''\<rparr>)
       \<lparr>isStyledLoaded = False\<rparr> = []
   \<and> filter is_capture
        (onMapRender_cb
           \<lparr>setExportImageDataUri = (\<lambda>d. None :: string option),
            setExportImageError = (\<lambda>e. None), addNotification = (\<lambda>n. None)\<rparr>
           (\<lambda>node flt. Inr ''data:image/png'' :: string + string)
           (\<lambda>err. ''Export failed: '' @ err) (Some \<lparr>className = ''plot''\<rparr>)
           \<lparr>isStyledLoaded = True\<rparr>)
     = [ConvertToPng \<lparr>className = ''plot''\<rparr>]"
  using
    onMapRender_gate [where convertToPng = "\<lambda>node flt. Inr ''data:image/png'' :: string + string"
      and cb = "\<lparr>setExportImageDataUri = (\<lambda>d. None :: string option),
                 setExportImageError = (\<lambda>e. None), addNotification = (\<lambda>n. None)\<rparr>"
      and exportImageError = "\<lambda>err. ''Export failed: '' @ err"
      and current = "Some \<lparr>className = ''plot''\<rparr>" and node = "\<lparr>className = ''plot''\<rparr>"
      and mp = "\<lparr>isStyledLoaded = False\<rparr>"]
    onMapRender_gate [where convertToPng = "\<lambda>node flt. Inr ''data:image/png'' :: string + string"
      and cb = "\<lparr>setExportImageDataUri = (\<lambda>d. None :: string option),
                 setExportImageError = (\<lambda>e. None), addNotification = (\<lambda>n. None)\<rparr>"
      and exportImageError = "\<lambda>err. ''Export failed: '' @ err"
      and current = "Some \<lparr>className = ''plot''\<rparr>" and node = "\<lparr>className = ''plot''\<rparr>"
      and mp = "\<lparr>isStyledLoaded = True\<rparr>"]
  by simp

section \<open>Properties of the props of a map container\<close>

lemma js_div_one: "js_div w (Fin 1) = w"
  by (cases w) (simp_all add: js_inf_def)

lemma js_add_zero: "js_add z (Fin 0) = z"
  by (cases z) simp_all

lemma log2_or_zero: "js_or (Some l) (Fin 0) = (if l = NaN then Fin 0 else l)"
  by (cases l) simp_all

text \<open>
  What a map container gets beyond \<^verbatim>\<open>mapProps\<close> is its \<^verbatim>\<open>index\<close>, when
  \<^verbatim>\<open>mapProps\<close> has none, and its \<^verbatim>\<open>mapLayers\<close>, when the view is split; what
  it does not get is the four keys that React reserves.
\<close>

lemma mapContainers_props:
  assumes "e \<in> set (mapContainers sm p)"
  shows "mapState (props e) = mapState p \<and> mapStyle (props e) = mapStyle p
    \<and> mapControls (props e) = mapControls p \<and> MapComponent (props e) = MapComponent p
    \<and> onMapRender (props e) = onMapRender p \<and> isExport (props e) = isExport p
    \<and> deckGlProps (props e) = deckGlProps p \<and> props_t.more (props e) = props_t.more p
    \<and> (\<not> isSplit_memo sm \<longrightarrow> mapLayers (props e) = mapLayers p)
    \<and> (index p \<noteq> None \<longrightarrow> index (props e) = index p)
    \<and> props_t.key (props e) = None \<and> props_t.ref (props e) = None
    \<and> dev_self (props e) = None \<and> dev_source (props e) = None
    \<and> element_t.ref e = props_t.ref p
    \<and> (\<forall>k. props_t.key p = Some k \<longrightarrow> element_t.key e = Some (SpreadKey k))"
  using assms
  by (auto simp: mapContainers_def index_then_spread_def createElement_def
      split: if_splits option.splits)

lemma PlotContainer_elements:
  assumes "e \<in> set (PlotContainer g f es mf sm h)"
  shows "e \<in> set (mapContainers sm (mapProps f mf (legend es)
      (scale_memo g (imageSize_of es) (mapState mf)) (size_memo (imageSize_of es))
      (isSplit_memo sm) h))"
  using assms by (simp add: PlotContainer_def Let_def)

text \<open>
  Claim C7, as stated, fails on the zoom. With an explicit scale of \<open>-2\<close>,
  \<^verbatim>\<open>Math.log2(scale)\<close> is NaN and \<^verbatim>\<open>Math.log2(scale) || 0\<close> is 0: the zoom of the
  container is the incoming zoom 10, where the zoom plus \<^verbatim>\<open>log2(Scale)\<close> is NaN.
\<close>

theorem zoom_negative_scale_counterexample:
  "zoom (mapState (props (hd (PlotContainer (\<lambda>imgW imgH mapW mapH. Fin 1) js_mul
       \<lparr>imageSize = Some \<lparr>imageW = Some (Fin 800), imageH = Some (Fin 600),
                          scale = Some (Fin (-2))\<rparr>,
        legend = True, ratio = ''SCREEN'', resolution = ''ONE_X''\<rparr>
       \<lparr>mapState = \<lparr>mapState_t.width = Fin 800, mapState_t.height = Fin 600, zoom = Fin 10,
                    isSplit = False\<rparr>,
        mapStyle = \<lparr>topMapStyle = Fin 3, bottomMapStyle = Fin 5\<rparr>,
        mapControls = None, MapComponent = None, onMapRender = None, isExport = None,
        deckGlProps = None, mapLayers = None, index = None,
       key = (None :: string option), ref = None, dev_self = None, dev_source = None\<rparr>
       (None :: nat splitMap_t list option) (0::nat)))))
   \<noteq> js_add (Fin 10)
       (js_log2 (scale_memo (\<lambda>imgW imgH mapW mapH. Fin 1)
          \<lparr>imageW = Some (Fin 800), imageH = Some (Fin 600), scale = Some (Fin (-2))\<rparr>
          \<lparr>mapState_t.width = Fin 800, mapState_t.height = Fin 600, zoom = Fin 10,
           isSplit = False\<rparr>))"
  by (simp add: PlotContainer_def mapContainers_def isSplit_memo_def index_then_spread_def createElement_def
      mapProps_def scale_memo_def imageSize_of_def Let_def)

text \<open>
  Claim C7, amended. In the props of every map container the width of the map state is
  the width of the size divided by 2 when \<^verbatim>\<open>splitMaps\<close> has more than one entry and
  the width of the size otherwise, the height is the height of the size, both map styles
  are those of \<^verbatim>\<open>scaleMapStyleByResolution\<close> at the scale, and the map legend control
  shows as the legend setting says. The zoom is the incoming zoom plus
  \<^verbatim>\<open>log2(Scale)\<close> whenever that logarithm is a number or infinite, and the incoming zoom
  unchanged when it is NaN, which is so for a negative scale.
\<close>

theorem pane_props_spec:
  assumes "e \<in> set (PlotContainer g f es mf sm h)"
  shows "mapState_t.width (mapState (props e)) =
           (if isSplit_memo sm then js_div (size_t.width (size_memo (imageSize_of es))) (Fin 2)
            else size_t.width (size_memo (imageSize_of es)))
    \<and> mapState_t.height (mapState (props e)) = size_t.height (size_memo (imageSize_of es))
    \<and> (js_log2 (scale_memo g (imageSize_of es) (mapState mf)) \<noteq> NaN \<longrightarrow>
         zoom (mapState (props e)) =
           js_add (zoom (mapState mf)) (js_log2 (scale_memo g (imageSize_of es) (mapState mf))))
    \<and> (js_log2 (scale_memo g (imageSize_of es) (mapState mf)) = NaN \<longrightarrow>
         zoom (mapState (props e)) = zoom (mapState mf))
    \<and> topMapStyle (mapStyle (props e)) =
         f (topMapStyle (mapStyle mf)) (scale_memo g (imageSize_of es) (mapState mf))
    \<and> bottomMapStyle (mapStyle (props e)) =
         f (bottomMapStyle (mapStyle mf)) (scale_memo g (imageSize_of es) (mapState mf))
    \<and> mapControls (props e) = Some [''mapLegend'' \<mapsto> \<lparr>show_ctl = legend es, active = True\<rparr>]"
  using mapContainers_props [OF PlotContainer_elements [OF assms]]
  by (simp add: mapProps_def js_div_one log2_or_zero js_add_zero del: js_or.simps)

theorem pane_props_spec_witness:
  "(let e = hd (PlotContainer (\<lambda>imgW imgH mapW mapH. Fin 1) js_mul
       \<lparr>imageSize = Some \<lparr>imageW = Some (Fin 800), imageH = Some (Fin 600),
                          scale = Some (Fin 2)\<rparr>,
        legend = True, ratio = ''SCREEN'', resolution = ''ONE_X''\<rparr>
       \<lparr>mapState = \<lparr>mapState_t.width = Fin 400, mapState_t.height = Fin 300, zoom = Fin 10,
                    isSplit = True\<rparr>,
        mapStyle = \<lparr>topMapStyle = Fin 3, bottomMapStyle = Fin 5\<rparr>,
        mapControls = None, MapComponent = None, onMapRender = None, isExport = None,
        deckGlProps = None, mapLayers = None, index = None,
       key = (None :: string option), ref = None, dev_self = None, dev_source = None\<rparr>
       (Some [\<lparr>layers = ''a''\<rparr>, \<lparr>layers = ''b''\<rparr>]) (0::nat))
    in mapState_t.width (mapState (props e)) = Fin 400
       \<and> mapState_t.height (mapState (props e)) = Fin 600
       \<and> zoom (mapState (props e)) = Fin 11
       \<and> topMapStyle (mapStyle (props e)) = Fin 6
       \<and> bottomMapStyle (mapStyle (props e)) = Fin 10
       \<and> mapControls (props e) = Some [''mapLegend'' \<mapsto> \<lparr>show_ctl = True, active = True\<rparr>])
   \<and> (let e = hd (PlotContainer (\<lambda>imgW imgH mapW mapH. Fin 1) js_mul
       \<lparr>imageSize = Some \<lparr>imageW = Some (Fin 800), imageH = Some (Fin 600),
                          scale = Some (Fin (-2))\<rparr>,
        legend = False, ratio = ''SCREEN'', resolution = ''ONE_X''\<rparr>
       \<lparr>mapState = \<lparr>mapState_t.width = Fin 400, mapState_t.height = Fin 300, zoom = Fin 10,
                    isSplit = False\<rparr>,
        mapStyle = \<lparr>topMapStyle = Fin 3, bottomMapStyle = Fin 5\<rparr>,
        mapControls = None, MapComponent = None, onMapRender = None, isExport = None,
        deckGlProps = None, mapLayers = None, index = None,
       key = (None :: string option), ref = None, dev_self = None, dev_source = None\<rparr>
       (None :: string splitMap_t list option) (0::nat))
    in mapState_t.width (mapState (props e)) = Fin 800
       \<and> zoom (mapState (props e)) = Fin 10)"
proof -
  let ?split = "PlotContainer (\<lambda>imgW imgH mapW mapH. Fin 1) js_mul
       \<lparr>imageSize = Some \<lparr>imageW = Some (Fin 800), imageH = Some (Fin 600),
                          scale = Some (Fin 2)\<rparr>,
        legend = True, ratio = ''SCREEN'', resolution = ''ONE_X''\<rparr>
       \<lparr>mapState = \<lparr>mapState_t.width = Fin 400, mapState_t.height = Fin 300, zoom = Fin 10,
                    isSplit = True\<rparr>,
        mapStyle = \<lparr>topMapStyle = Fin 3, bottomMapStyle = Fin 5\<rparr>,
        mapControls = None, MapComponent = None, onMapRender = None, isExport = None,
        deckGlProps = None, mapLayers = None, index = None,
       key = (None :: string option), ref = None, dev_self = None, dev_source = None\<rparr>
       (Some [\<lparr>layers = ''a''\<rparr>, \<lparr>layers = ''b''\<rparr>]) (0::nat)"
  let ?single = "PlotContainer (\<lambda>imgW imgH mapW mapH. Fin 1) js_mul
       \<lparr>imageSize = Some \<lparr>imageW = Some (Fin 800), imageH = Some (Fin 600),
                          scale = Some (Fin (-2))\<rparr>,
        legend = False, ratio = ''SCREEN'', resolution = ''ONE_X''\<rparr>
       \<lparr>mapState = \<lparr>mapState_t.width = Fin 400, mapState_t.height = Fin 300, zoom = Fin 10,
                    isSplit = False\<rparr>,
        mapStyle = \<lparr>topMapStyle = Fin 3, bottomMapStyle = Fin 5\<rparr>,
        mapControls = None, MapComponent = None, onMapRender = None, isExport = None,
        deckGlProps = None, mapLayers = None, index = None,
       key = (None :: string option), ref = None, dev_self = None, dev_source = None\<rparr>
       (None :: string splitMap_t list option) (0::nat)"
  have m1: "hd ?split \<in> set ?split"
    by (simp add: PlotContainer_def mapContainers_def isSplit_memo_def createElement_def Let_def)
  have m2: "hd ?single \<in> set ?single"
    by (simp add: PlotContainer_def mapContainers_def isSplit_memo_def createElement_def Let_def)
  from pane_props_spec [OF m1] pane_props_spec [OF m2] show ?thesis
    by (simp add: Let_def isSplit_memo_def size_memo_def scale_memo_def imageSize_of_def)
qed

text \<open>
  Claim C10, as stated, fails. A \<^verbatim>\<open>mapFields\<close> that carries \<^verbatim>\<open>mapControls\<close> with a
  hidden, inactive map legend reaches the map container with the \<^verbatim>\<open>mapControls\<close> the
  component writes (here the legend shown, since the legend setting is on), not with its
  own: the object literal sets \<^verbatim>\<open>mapControls\<close> after the spread of \<^verbatim>\<open>mapFields\<close>.
  And a \<^verbatim>\<open>key\<close> of \<^verbatim>\<open>mapFields\<close> is not among the props of the map container:
  React takes it as the key of the element.
\<close>

theorem mapControls_overridden_counterexample:
  "mapControls (props (hd (PlotContainer (\<lambda>imgW imgH mapW mapH. Fin 1) js_mul
       \<lparr>imageSize = Some \<lparr>imageW = Some (Fin 800), imageH = Some (Fin 600), scale = None\<rparr>,
        legend = True, ratio = ''SCREEN'', resolution = ''ONE_X''\<rparr>
       \<lparr>mapState = \<lparr>mapState_t.width = Fin 800, mapState_t.height = Fin 600, zoom = Fin 10,
                    isSplit = False\<rparr>,
        mapStyle = \<lparr>topMapStyle = Fin 3, bottomMapStyle = Fin 5\<rparr>,
        mapControls = Some [''mapLegend'' \<mapsto> \<lparr>show_ctl = False, active = False\<rparr>],
        MapComponent = None, onMapRender = None, isExport = None,
        deckGlProps = None, mapLayers = None, index = None,
        key = Some ''pane'', ref = None, dev_self = None, dev_source = None\<rparr>
       (None :: nat splitMap_t list option) (0::nat))))
     \<noteq> Some [''mapLegend'' \<mapsto> \<lparr>show_ctl = False, active = False\<rparr>]
   \<and> props_t.key (props (hd (PlotContainer (\<lambda>imgW imgH mapW mapH. Fin 1) js_mul
       \<lparr>imageSize = Some \<lparr>imageW = Some (Fin 800), imageH = Some (Fin 600), scale = None\<rparr>,
        legend = True, ratio = ''SCREEN'', resolution = ''ONE_X''\<rparr>
       \<lparr>mapState = \<lparr>mapState_t.width = Fin 800, mapState_t.height = Fin 600, zoom = Fin 10,
                    isSplit = False\<rparr>,
        mapStyle = \<lparr>topMapStyle = Fin 3, bottomMapStyle = Fin 5\<rparr>,
        mapControls = Some [''mapLegend'' \<mapsto> \<lparr>show_ctl = False, active = False\<rparr>],
        MapComponent = None, onMapRender = None, isExport = None,
        deckGlProps = None, mapLayers = None, index = None,
        key = Some ''pane'', ref = None, dev_self = None, dev_source = None\<rparr>
       (None :: nat splitMap_t list option) (0::nat))))
     \<noteq> Some ''pane''"
proof -
  have "[''mapLegend'' \<mapsto> \<lparr>show_ctl = True, active = True\<rparr>] ''mapLegend''
      \<noteq> [''mapLegend'' \<mapsto> \<lparr>show_ctl = False, active = False\<rparr>] ''mapLegend''"
    by simp
  then have "[''mapLegend'' \<mapsto> \<lparr>show_ctl = True, active = True\<rparr>]
      \<noteq> [''mapLegend'' \<mapsto> \<lparr>show_ctl = False, active = False\<rparr>]"
    by metis
  then show ?thesis
    by (simp add: PlotContainer_def mapContainers_def isSplit_memo_def index_then_spread_def
        createElement_def mapProps_def Let_def)
qed

text \<open>
  Claim C10, amended. The props of every map container keep unchanged every field of
  \<^verbatim>\<open>mapFields\<close> except \<^verbatim>\<open>mapState\<close>, \<^verbatim>\<open>mapStyle\<close>, the keys the component
  writes itself (\<^verbatim>\<open>mapControls\<close>, \<^verbatim>\<open>MapComponent\<close>, \<^verbatim>\<open>onMapRender\<close>,
  \<^verbatim>\<open>isExport\<close>, \<^verbatim>\<open>deckGlProps\<close>, and \<^verbatim>\<open>mapLayers\<close> when the view is split)
  and the keys React reserves (\<^verbatim>\<open>key\<close>, \<^verbatim>\<open>ref\<close>, \<^verbatim>\<open>__self\<close>,
  \<^verbatim>\<open>__source\<close>). The reserved keys are not among the props: a \<^verbatim>\<open>key\<close> of
  \<^verbatim>\<open>mapFields\<close> becomes the key of the element and a \<^verbatim>\<open>ref\<close> its ref. An
  \<^verbatim>\<open>index\<close> of \<^verbatim>\<open>mapFields\<close> is kept. Within the map state every field other than
  \<^verbatim>\<open>width\<close>, \<^verbatim>\<open>height\<close> and \<^verbatim>\<open>zoom\<close> is unchanged.
\<close>

theorem spread_frame:
  assumes "e \<in> set (PlotContainer g f es mf sm h)"
  shows "props_t.more (props e) = props_t.more mf
    \<and> (\<not> isSplit_memo sm \<longrightarrow> mapLayers (props e) = mapLayers mf)
    \<and> (index mf \<noteq> None \<longrightarrow> index (props e) = index mf)
    \<and> props_t.key (props e) = None \<and> props_t.ref (props e) = None
    \<and> dev_self (props e) = None \<and> dev_source (props e) = None
    \<and> (props_t.key mf = Some k \<longrightarrow> element_t.key e = Some (SpreadKey k))
    \<and> element_t.ref e = props_t.ref mf
    \<and> mapState_t.more (mapState (props e)) = mapState_t.more (mapState mf)
    \<and> isSplit (mapState (props e)) = isSplit (mapState mf)"
  using mapContainers_props [OF PlotContainer_elements [OF assms]]
  by (simp add: mapProps_def)

theorem spread_frame_witness:
  "(let e = hd (PlotContainer (\<lambda>imgW imgH mapW mapH. Fin 1) js_mul
       \<lparr>imageSize = Some \<lparr>imageW = Some (Fin 800), imageH = Some (Fin 600), scale = None\<rparr>,
        legend = True, ratio = ''SCREEN'', resolution = ''ONE_X''\<rparr>
       \<lparr>mapState = \<lparr>mapState_t.width = Fin 400, mapState_t.height = Fin 300, zoom = Fin 10,
                    isSplit = False, \<dots> = ''bearing''\<rparr>,
        mapStyle = \<lparr>topMapStyle = Fin 3, bottomMapStyle = Fin 5\<rparr>,
        mapControls = None, MapComponent = None, onMapRender = None, isExport = None,
        deckGlProps = None, mapLayers = Some ''all'', index = Some 7,
        key = Some ''pane'', ref = Some ''handle'', dev_self = None, dev_source = None,
        \<dots> = ''datasets''\<rparr>
       (None :: string splitMap_t list option) (0::nat))
    in props_t.more (props e) = ''datasets''
       \<and> mapLayers (props e) = Some ''all''
       \<and> index (props e) = Some 7
       \<and> props_t.key (props e) = None
       \<and> element_t.key e = Some (SpreadKey ''pane'')
       \<and> element_t.ref e = Some ''handle''
       \<and> mapState_t.more (mapState (props e)) = ''bearing''
       \<and> isSplit (mapState (props e)) = False)"
proof -
  let ?ps = "PlotContainer (\<lambda>imgW imgH mapW mapH. Fin 1) js_mul
       \<lparr>imageSize = Some \<lparr>imageW = Some (Fin 800), imageH = Some (Fin 600), scale = None\<rparr>,
        legend = True, ratio = ''SCREEN'', resolution = ''ONE_X''\<rparr>
       \<lparr>mapState = \<lparr>mapState_t.width = Fin 400, mapState_t.height = Fin 300, zoom = Fin 10,
                    isSplit = False, \<dots> = ''bearing''\<rparr>,
        mapStyle = \<lparr>topMapStyle = Fin 3, bottomMapStyle = Fin 5\<rparr>,
        mapControls = None, MapComponent = None, onMapRender = None, isExport = None,
        deckGlProps = None, mapLayers = Some ''all'', index = Some 7,
        key = Some ''pane'', ref = Some ''handle'', dev_self = None, dev_source = None,
        \<dots> = ''datasets''\<rparr>
       (None :: string splitMap_t list option) (0::nat)"
  have m: "hd ?ps \<in> set ?ps"
    by (simp add: PlotContainer_def mapContainers_def isSplit_memo_def createElement_def Let_def)
  from spread_frame [OF m, where k = "''pane''"] show ?thesis
    by (simp add: Let_def isSplit_memo_def)
qed

section \<open>Properties of the effects\<close>

lemma updates_ref:
  "plottingAreaRef (updates cb c x st ss) = plottingAreaRef st"
  by (induction ss arbitrary: st) (simp_all add: update_def)

lemma updates_deps:
  "effect_deps (updates cb c x st ss) = (if ss = [] then effect_deps st else deps_of (last ss))"
  by (induction ss arbitrary: st) (simp_all add: update_def)

text \<open>
  Claim C8. After the mount and any number of later renders, a render whose settings
  differ from those of the render before in the ratio, the resolution or the legend runs
  the second effect once, which starts exactly one capture of the plotting area; a render
  that changes none of the three calls nothing.
\<close>

theorem effect_retrigger:
  assumes "st = updates cb convertToPng exportImageError
                  (fst (mount cb convertToPng exportImageError node initial)) ss"
  shows "(ratio s \<noteq> ratio (last (initial # ss))
            \<or> resolution s \<noteq> resolution (last (initial # ss))
            \<or> legend s \<noteq> legend (last (initial # ss))
          \<longrightarrow> filter is_capture (snd (update cb convertToPng exportImageError st s))
                = [ConvertToPng node])
    \<and> (ratio s = ratio (last (initial # ss))
            \<and> resolution s = resolution (last (initial # ss))
            \<and> legend s = legend (last (initial # ss))
          \<longrightarrow> snd (update cb convertToPng exportImageError st s) = [])"
proof -
  have r: "plottingAreaRef st = Some node"
    by (simp add: assms updates_ref mount_def)
  have d: "effect_deps st = deps_of (last (initial # ss))"
    by (simp add: assms updates_deps mount_def)
  show ?thesis
    by (auto simp: update_def r d deps_of_def retrieveNewScreenShot_captures)
qed

theorem effect_retrigger_witness:
  "filter is_capture
     (snd (update
        \<lparr>setExportImageDataUri = (\<lambda>d. None :: string option), setExportImageError = (\<lambda>e. None),
         addNotification = (\<lambda>n. None)\<rparr>
        (\<lambda>node flt. Inr ''data:image/png'' :: string + string)
        (\<lambda>err. ''Export failed: '' @ err)
        (updates
           \<lparr>setExportImageDataUri = (\<lambda>d. None :: string option),
            setExportImageError = (\<lambda>e. None), addNotification = (\<lambda>n. None)\<rparr>
           (\<lambda>node flt. Inr ''data:image/png'' :: string + string)
           (\<lambda>err. ''Export failed: '' @ err)
           (fst (mount
              \<lparr>setExportImageDataUri = (\<lambda>d. None :: string option),
               setExportImageError = (\<lambda>e. None), addNotification = (\<lambda>n. None)\<rparr>
              (\<lambda>node flt. Inr ''data:image/png'' :: string + string)
              (\<lambda>err. ''Export failed: '' @ err) \<lparr>className = ''plot''\<rparr>
              \<lparr>imageSize = None, legend = False, ratio = ''SCREEN'', resolution = ''ONE_X''\<rparr>))
           [\<lparr>imageSize = Some \<lparr>imageW = Some (Fin 800), imageH = None, scale = None\<rparr>,
             legend = False, ratio = ''SCREEN'', resolution = ''ONE_X''\<rparr>])
        \<lparr>imageSize = None, legend = True, ratio = ''SCREEN'', resolution = ''ONE_X''\<rparr>))
     = [ConvertToPng \<lparr>className = ''plot''\<rparr>]
   \<and> snd (update
        \<lparr>setExportImageDataUri = (\<lambda>d. None :: string option), setExportImageError = (\<lambda>e. None),
         addNotification = (\<lambda>n. None)\<rparr>
        (\<lambda>node flt. Inr ''data:image/png'' :: string + string)
        (\<lambda>err. ''Export failed: '' @ err)
        (updates
           \<lparr>setExportImageDataUri = (\<lambda>d. None :: string option),
            setExportImageError = (\<lambda>e. None), addNotification = (\<lambda>n. None)\<rparr>
           (\<lambda>node flt. Inr ''data:image/png'' :: string + string)
           (\<lambda>err. ''Export failed: '' @ err)
           (fst (mount
              \<lparr>setExportImageDataUri = (\<lambda>d. None :: string option),
               setExportImageError = (\<lambda>e. None), addNotification = (\<lambda>n. None)\<rparr>
              (\<lambda>node flt. Inr ''data:image/png'' :: string + string)
              (\<lambda>err. ''Export failed: '' @ err) \<lparr>className = ''plot''\<rparr>
              \<lparr>imageSize = None, legend = False, ratio = ''SCREEN'', resolution = ''ONE_X''\<rparr>))
           [\<lparr>imageSize = Some \<lparr>imageW = Some (Fin 800), imageH = None, scale = None\<rparr>,
             legend = False, ratio = ''SCREEN'', resolution = ''ONE_X''\<rparr>])
        \<lparr>imageSize = None, legend = False, ratio = ''SCREEN'', resolution = ''ONE_X''\<rparr>)
     = ([] :: (string, string, string) event list)"
  using
    effect_retrigger [OF refl,
      where convertToPng = "\<lambda>node flt. Inr ''data:image/png'' :: string + string"
      and cb = "\<lparr>setExportImageDataUri = (\<lambda>d. None :: string option),
                 setExportImageError = (\<lambda>e. None), addNotification = (\<lambda>n. None)\<rparr>"
      and exportImageError = "\<lambda>err. ''Export failed: '' @ err"
      and node = "\<lparr>className = ''plot''\<rparr>"
      and initial = "\<lparr>imageSize = None, legend = False, ratio = ''SCREEN'',
                      resolution = ''ONE_X''\<rparr>"
      and ss = "[\<lparr>imageSize = Some \<lparr>imageW = Some (Fin 800), imageH = None, scale = None\<rparr>,
                 legend = False, ratio = ''SCREEN'', resolution = ''ONE_X''\<rparr>]"
      and s = "\<lparr>imageSize = None, legend = True, ratio = ''SCREEN'', resolution = ''ONE_X''\<rparr>"]
    effect_retrigger [OF refl,
      where convertToPng = "\<lambda>node flt. Inr ''data:image/png'' :: string + string"
      and cb = "\<lparr>setExportImageDataUri = (\<lambda>d. None :: string option),
                 setExportImageError = (\<lambda>e. None), addNotification = (\<lambda>n. None)\<rparr>"
      and exportImageError = "\<lambda>err. ''Export failed: '' @ err"
      and node = "\<lparr>className = ''plot''\<rparr>"
      and initial = "\<lparr>imageSize = None, legend = False, ratio = ''SCREEN'',
                      resolution = ''ONE_X''\<rparr>"
      and ss = "[\<lparr>imageSize = Some \<lparr>imageW = Some (Fin 800), imageH = None, scale = None\<rparr>,
                 legend = False, ratio = ''SCREEN'', resolution = ''ONE_X''\<rparr>]"
      and s = "\<lparr>imageSize = None, legend = False, ratio = ''SCREEN'', resolution = ''ONE_X''\<rparr>"]
  by simp

section \<open>Properties of the debounced render callback\<close>






end
